theory Spec2Isabelle
  imports Complex_Main "HOL-Library.Word"
begin

section \<open>JavaScript strings\<close>

text \<open>
  A JavaScript string is a sequence of UTF-16 code units; \<open>length\<close>, \<open>trim\<close> and a regular
  expression without the \<open>u\<close> flag all work on code units. String literals of the source
  are ASCII and are written with \<open>js\<close>.
\<close>

type_synonym code_unit = "16 word"
type_synonym jsstr = "code_unit list"

definition js :: "string \<Rightarrow> jsstr" where
  "js s = map (\<lambda>c. of_nat (of_char c)) s"

text \<open>
  The white space of ECMAScript (WhiteSpace and LineTerminator): what \<open>\s\<close> matches in a
  regular expression and what \<open>String.prototype.trim\<close> strips.
\<close>

definition is_space :: "code_unit \<Rightarrow> bool" where
  "is_space c \<longleftrightarrow>
     (0x0009 \<le> c \<and> c \<le> 0x000D) \<or> c = 0x0020 \<or> c = 0x00A0 \<or> c = 0x1680 \<or>
     (0x2000 \<le> c \<and> c \<le> 0x200A) \<or> c = 0x2028 \<or> c = 0x2029 \<or> c = 0x202F \<or>
     c = 0x205F \<or> c = 0x3000 \<or> c = 0xFEFF"

definition trim :: "jsstr \<Rightarrow> jsstr" where
  "trim s = rev (dropWhile is_space (rev (dropWhile is_space s)))"

section \<open>The regular expressions of the form\<close>

text \<open>
  The two patterns of the source, \<open>/^[^\s@]+@[^\s@]+\.[^\s@]+$/\<close> and \<open>/[^0-9]/g\<close>, are
  built from single-code-unit atoms: a literal, or a negated class whose members are
  \<open>\s\<close>, a single code unit or a range.
\<close>

datatype class_item = Space | Unit code_unit | Range code_unit code_unit

fun in_item :: "class_item \<Rightarrow> code_unit \<Rightarrow> bool" where
  "in_item Space c = is_space c"
| "in_item (Unit u) c = (c = u)"
| "in_item (Range lo hi) c = (lo \<le> c \<and> c \<le> hi)"

datatype atom = Lit code_unit | NoneOf "class_item list"

fun atom_matches :: "atom \<Rightarrow> code_unit \<Rightarrow> bool" where
  "atom_matches (Lit u) c = (c = u)"
| "atom_matches (NoneOf items) c = (\<not> list_ex (\<lambda>i. in_item i c) items)"

datatype quantifier = Once | OneOrMore

type_synonym pattern = "(atom \<times> quantifier) list"

text \<open>
  \<open>anchored_test p s\<close> is \<open>/^p$/.test(s)\<close> for a sequence \<open>p\<close> of quantified atoms: the
  whole of \<open>s\<close> has to be consumed. A \<open>+\<close> atom takes one code unit and then either goes
  on or hands over to the rest of the pattern, which is every choice the backtracking
  matcher can make.
\<close>

fun anchored_test :: "pattern \<Rightarrow> jsstr \<Rightarrow> bool" where
  "anchored_test [] s = (s = [])"
| "anchored_test ((a, q) # p) [] = False"
| "anchored_test ((a, Once) # p) (c # s) = (atom_matches a c \<and> anchored_test p s)"
| "anchored_test ((a, OneOrMore) # p) (c # s) =
     (atom_matches a c \<and> (anchored_test ((a, OneOrMore) # p) s \<or> anchored_test p s))"

text \<open>
  \<open>s.replace(/a/g, r)\<close> for a single atom \<open>a\<close>: every code unit that matches is replaced
  by \<open>r\<close>, the others stay.
\<close>

definition replace_all :: "atom \<Rightarrow> jsstr \<Rightarrow> jsstr \<Rightarrow> jsstr" where
  "replace_all a r s = concat (map (\<lambda>c. if atom_matches a c then r else [c]) s)"

section \<open>Validation (the form component)\<close>

definition AT :: code_unit where "AT = 0x40"
definition DOT :: code_unit where "DOT = 0x2E"

definition not_space_at :: atom where
  "not_space_at = NoneOf [Space, Unit AT]"

definition email_pattern :: pattern where
  "email_pattern =
     [(not_space_at, OneOrMore), (Lit AT, Once), (not_space_at, OneOrMore), (Lit DOT, Once),
      (not_space_at, OneOrMore)]"

definition validateEmail :: "jsstr \<Rightarrow> bool" where
  "validateEmail e = anchored_test email_pattern e"

definition validatePhone :: "jsstr \<Rightarrow> bool" where
  "validatePhone p =
     (let digits = length (replace_all (NoneOf [Range 0x30 0x39]) [] p)
      in digits \<ge> 7 \<and> digits \<le> 15)"

text \<open>The count the specification speaks of: the code units of \<open>p\<close> that are a digit 0-9.\<close>

definition is_digit :: "code_unit \<Rightarrow> bool" where
  "is_digit c \<longleftrightarrow> 0x30 \<le> c \<and> c \<le> 0x39"

definition digit_count :: "jsstr \<Rightarrow> nat" where
  "digit_count p = length (filter is_digit p)"

text \<open>
  The shape the specification describes: one or more code units that are neither white
  space nor \<open>@\<close>, then \<open>@\<close>, then one or more such code units, then a dot, then one or
  more such code units.
\<close>

definition plain :: "code_unit \<Rightarrow> bool" where
  "plain c \<longleftrightarrow> \<not> is_space c \<and> c \<noteq> AT"

definition email_shape :: "jsstr \<Rightarrow> bool" where
  "email_shape s \<longleftrightarrow>
     (\<exists>a b c. s = a @ [AT] @ b @ [DOT] @ c \<and> a \<noteq> [] \<and> b \<noteq> [] \<and> c \<noteq> [] \<and>
        list_all plain a \<and> list_all plain b \<and> list_all plain c)"

section \<open>JSON values\<close>

text \<open>
  What \<open>JSON.parse\<close> delivers. A number is the rational its double denotes (JSON has no
  NaN and no infinity; both zeros denote 0). An object keeps its members in source order.
  A JavaScript value that may be \<open>undefined\<close> is a \<open>json option\<close>, \<open>None\<close> for \<open>undefined\<close>.
\<close>

datatype json =
    JNull | JBool bool | JNum rat | JStr jsstr | JArr "json list" | JObj "(jsstr \<times> json) list"

type_synonym jsval = "json option"

fun truthy :: "jsval \<Rightarrow> bool" where
  "truthy None = False"
| "truthy (Some JNull) = False"
| "truthy (Some (JBool b)) = b"
| "truthy (Some (JNum x)) = (x \<noteq> 0)"
| "truthy (Some (JStr s)) = (s \<noteq> [])"
| "truthy (Some (JArr xs)) = True"
| "truthy (Some (JObj kvs)) = True"

text \<open>
  \<open>property v k\<close> reads the property \<open>k\<close> the way both handlers do, with \<open>null\<close> guarded
  (\<open>json?.error\<close>, and \<open>const {name, email, phone} = body ?? {}\<close>): the last member \<open>k\<close>
  of an object, \<open>undefined\<close> for \<open>null\<close>, a primitive or an array. It is only used with the
  keys \<open>name\<close>, \<open>email\<close>, \<open>phone\<close> and \<open>error\<close>, which no prototype defines.
\<close>

fun property :: "json \<Rightarrow> jsstr \<Rightarrow> jsval" where
  "property (JObj kvs) k = map_of (rev kvs) k"
| "property v k = None"

text \<open>\<open>v || d\<close> for a default \<open>d\<close> that is never \<open>undefined\<close>.\<close>

definition or_else :: "jsval \<Rightarrow> json \<Rightarrow> json" where
  "or_else v d = (case v of None \<Rightarrow> d | Some x \<Rightarrow> if truthy v then x else d)"

text \<open>An object literal as \<open>JSON.stringify\<close> sends it: a member that is \<open>undefined\<close> is left out.\<close>

definition object :: "(jsstr \<times> jsval) list \<Rightarrow> json" where
  "object kvs = JObj (List.map_filter (\<lambda>(k, v). map_option (Pair k) v) kvs)"

text \<open>
  A caught value. Both catch blocks read only \<open>err?.message\<close>, which is a string or is
  missing.
\<close>

datatype thrown = Thrown (message: "jsstr option")

text \<open>\<open>err?.message || fallback\<close>\<close>

definition message_or :: "thrown \<Rightarrow> jsstr \<Rightarrow> jsstr" where
  "message_or err fallback =
     (case message err of None \<Rightarrow> fallback | Some m \<Rightarrow> if m = [] then fallback else m)"

text \<open>The outcome of \<open>await x.json()\<close>, for the response of the client and the request of the endpoint.\<close>

datatype json_outcome = JsonRejects thrown | JsonResolves json

section \<open>The form component\<close>

datatype status = Idle | Sending | Success | Error

record form =
  name :: jsstr
  email :: jsstr
  phone :: jsstr
  status :: status
  error :: "jsstr option"

definition initial :: form where
  "initial = \<lparr>name = [], email = [], phone = [], status = Idle, error = None\<rparr>"

record request =
  url :: jsstr
  http_method :: jsstr
  content_type :: jsstr
  body :: json

record fetch_response =
  http_status :: nat
  json_result :: json_outcome

definition ok :: "fetch_response \<Rightarrow> bool" where
  "ok res \<longleftrightarrow> 200 \<le> http_status res \<and> http_status res \<le> 299"

datatype fetch_outcome = FetchRejects thrown | FetchResolves fetch_response

text \<open>
  \<open>new Error(v)\<close> for the value \<open>v\<close> of \<open>json?.error || "Server error"\<close>: the message is \<open>v\<close>
  when it is a string and the string conversion of the runtime otherwise, which is the
  parameter \<open>to_string\<close> (where that conversion itself throws, \<open>to_string v\<close> stands for the
  message of what it throws: the \<open>catch\<close> reads nothing else).
\<close>

definition new_Error :: "(json \<Rightarrow> jsstr) \<Rightarrow> json \<Rightarrow> thrown" where
  "new_Error to_string v = Thrown (Some (case v of JStr m \<Rightarrow> m | _ \<Rightarrow> to_string v))"

text \<open>
  \<open>handleSubmit\<close> up to its first \<open>await\<close>: the state it leaves and the request it hands
  to \<open>fetch\<close>, if any. (\<open>ev?.preventDefault()\<close> touches nothing of the state.)
\<close>

definition handleSubmit_sync :: "form \<Rightarrow> form \<times> request option" where
  "handleSubmit_sync s0 =
     (let s = s0\<lparr>error := None\<rparr> in
      if trim (name s) = [] then (s\<lparr>error := Some (js ''Please enter your name.'')\<rparr>, None)
      else if \<not> validateEmail (email s) then
        (s\<lparr>error := Some (js ''Please enter a valid email.'')\<rparr>, None)
      else if \<not> validatePhone (phone s) then
        (s\<lparr>error := Some (js ''Please enter a valid phone number.'')\<rparr>, None)
      else
        let s' = s\<lparr>status := Sending\<rparr>;
            payload = object [(js ''name'', Some (JStr (trim (name s)))),
                              (js ''email'', Some (JStr (trim (email s)))),
                              (js ''phone'', Some (JStr (trim (phone s))))]
        in (s', Some \<lparr>url = js ''/api/subscribe'', http_method = js ''POST'',
                      content_type = js ''application/json'', body = payload\<rparr>))"

text \<open>The body of the \<open>try\<close> after \<open>fetch\<close> has settled: \<open>Inl\<close> is what it throws.\<close>

definition await_fetch :: "(json \<Rightarrow> jsstr) \<Rightarrow> fetch_outcome \<Rightarrow> thrown + unit" where
  "await_fetch to_string outcome =
     (case outcome of
        FetchRejects err \<Rightarrow> Inl err
      | FetchResolves res \<Rightarrow>
          (case json_result res of
             JsonRejects err \<Rightarrow> Inl err
           | JsonResolves j \<Rightarrow>
               if \<not> ok res then
                 Inl (new_Error to_string (or_else (property j (js ''error'')) (JStr (js ''Server error''))))
               else Inr ()))"

text \<open>The rest of \<open>handleSubmit\<close>, run on the state of the component when \<open>fetch\<close> settles.\<close>

definition handleSubmit_settle :: "(json \<Rightarrow> jsstr) \<Rightarrow> fetch_outcome \<Rightarrow> form \<Rightarrow> form" where
  "handleSubmit_settle to_string outcome s =
     (case await_fetch to_string outcome of
        Inr u \<Rightarrow> s\<lparr>status := Success, name := [], email := [], phone := []\<rparr>
      | Inl err \<Rightarrow> s\<lparr>status := Error, error := Some (message_or err (js ''Something went wrong.''))\<rparr>)"

text \<open>
  One whole run of \<open>handleSubmit\<close> against a network \<open>net\<close>, with no other event of the
  component between the request and its answer: the final state and the requests handed
  to \<open>fetch\<close>.
\<close>

definition handleSubmit :: "(json \<Rightarrow> jsstr) \<Rightarrow> (request \<Rightarrow> fetch_outcome) \<Rightarrow> form \<Rightarrow> form \<times> request list" where
  "handleSubmit to_string net s =
     (case handleSubmit_sync s of
        (s', None) \<Rightarrow> (s', [])
      | (s', Some req) \<Rightarrow> (handleSubmit_settle to_string (net req) s', [req]))"

text \<open>
  The submit control, \<open><button disabled={status === "sending"} type="submit">\<close>: the value
  of its \<open>disabled\<close> attribute in a state of the component.
\<close>

definition submit_disabled :: "form \<Rightarrow> bool" where
  "submit_disabled s \<longleftrightarrow> status s = Sending"

text \<open>All three validations of \<open>handleSubmit\<close> pass.\<close>

definition valid :: "form \<Rightarrow> bool" where
  "valid s \<longleftrightarrow> trim (name s) \<noteq> [] \<and> validateEmail (email s) \<and> validatePhone (phone s)"

section \<open>The endpoint\<close>

text \<open>
  The persistence collaborator is a parameter of the handler: \<open>insert\<close> on the table
  \<open>early_access\<close> either throws or returns \<open>{data, error}\<close>.
\<close>

record row =
  row_name :: jsval
  row_email :: jsval
  row_phone :: jsval

datatype pg_error = PgError (pg_message: jsstr)

datatype insert_outcome = InsertThrows thrown | InsertReturns jsval "pg_error option"

datatype logged = LoggedError pg_error | LoggedThrown thrown

record http_response =
  status_code :: nat
  content :: json

record post_result =
  response :: http_response
  inserts :: "row list list"
  console :: "(jsstr \<times> logged) list"

definition NextResponse_json :: "json \<Rightarrow> nat \<Rightarrow> http_response" where
  "NextResponse_json b st = \<lparr>status_code = st, content = b\<rparr>"

text \<open>
  The body of the \<open>try\<close> of \<open>POST\<close>: the calls of \<open>insert\<close> it made, what it logged, and the
  response it returns (\<open>Inr\<close>) or the value it throws (\<open>Inl\<close>).
\<close>

definition POST_try ::
  "(row list \<Rightarrow> insert_outcome) \<Rightarrow> json_outcome \<Rightarrow>
   row list list \<times> (jsstr \<times> logged) list \<times> (thrown + http_response)" where
  "POST_try db_insert request_json =
     (case request_json of
        JsonRejects err \<Rightarrow> ([], [], Inl err)
      | JsonResolves b \<Rightarrow>
          let n = property b (js ''name''); e = property b (js ''email''); p = property b (js ''phone'') in
          if \<not> truthy n \<or> \<not> truthy e then
            ([], [], Inr (NextResponse_json
                            (object [(js ''error'', Some (JStr (js ''Missing name or email'')))]) 400))
          else
            let rows = [\<lparr>row_name = n, row_email = e, row_phone = p\<rparr>] in
            (case db_insert rows of
               InsertThrows err \<Rightarrow> ([rows], [], Inl err)
             | InsertReturns data (Some err) \<Rightarrow>
                 ([rows], [(js ''Supabase insert error:'', LoggedError err)],
                  Inr (NextResponse_json (object [(js ''error'', Some (JStr (pg_message err)))]) 500))
             | InsertReturns data None \<Rightarrow>
                 ([rows], [],
                  Inr (NextResponse_json
                         (object [(js ''ok'', Some (JBool True)), (js ''data'', data)]) 200))))"

definition POST :: "(row list \<Rightarrow> insert_outcome) \<Rightarrow> json_outcome \<Rightarrow> post_result" where
  "POST db_insert request_json =
     (case POST_try db_insert request_json of
        (calls, logs, Inr res) \<Rightarrow> \<lparr>response = res, inserts = calls, console = logs\<rparr>
      | (calls, logs, Inl err) \<Rightarrow>
          \<lparr>response = NextResponse_json
                        (object [(js ''error'', Some (JStr (message_or err (js ''Unknown error''))))]) 500,
           inserts = calls,
           console = logs @ [(js ''Subscribe route error:'', LoggedThrown err)]\<rparr>)"

text \<open>The row the endpoint builds from a body, and the record it stands for.\<close>

definition row_of :: "json \<Rightarrow> row" where
  "row_of b = \<lparr>row_name = property b (js ''name''), row_email = property b (js ''email''),
     row_phone = property b (js ''phone'')\<rparr>"

definition row_json :: "row \<Rightarrow> json" where
  "row_json r = object [(js ''name'', row_name r), (js ''email'', row_email r), (js ''phone'', row_phone r)]"

section \<open>Example inputs\<close>

text \<open>A form as the visitor left it, with an error message still on show.\<close>

definition filled :: "string \<Rightarrow> string \<Rightarrow> string \<Rightarrow> status \<Rightarrow> form" where
  "filled n e p st = \<lparr>name = js n, email = js e, phone = js p, status = st, error = Some (js ''old'')\<rparr>"

definition ann :: form where
  "ann = filled '' Ann '' ''ann@b.com'' ''+91 98765 43210 '' Idle"

definition answer :: "nat \<Rightarrow> json_outcome \<Rightarrow> fetch_response" where
  "answer st b = \<lparr>http_status = st, json_result = b\<rparr>"

text \<open>
  Four collaborators: one that succeeds and returns the records it was given, one that
  succeeds and returns no records (\<open>data\<close> is \<open>null\<close>), one whose insert reports an error,
  and one whose insert throws.
\<close>

definition echo_insert :: "row list \<Rightarrow> insert_outcome" where
  "echo_insert rows = InsertReturns (Some (JArr (map row_json rows))) None"


definition failing_insert :: "row list \<Rightarrow> insert_outcome" where
  "failing_insert rows = InsertReturns (Some JNull) (Some (PgError (js ''duplicate key'')))"

definition broken_insert :: "row list \<Rightarrow> insert_outcome" where
  "broken_insert rows = InsertThrows (Thrown (Some (js ''fetch failed'')))"

text \<open>The request body \<open>{name: "A", email: "a@b.com", phone: "123"}\<close>.\<close>

definition example_body :: json where
  "example_body = JObj [(js ''name'', JStr (js ''A'')), (js ''email'', JStr (js ''a@b.com'')),
     (js ''phone'', JStr (js ''123''))]"

section \<open>Phone validation\<close>

lemma digits_kept: "replace_all (NoneOf [Range 0x30 0x39]) [] s = filter is_digit s"
  by (induction s) (simp_all add: replace_all_def is_digit_def)

text \<open>
  C2. For every phone string \<open>p\<close>, \<open>validatePhone p\<close> holds exactly when the number of code
  units of \<open>p\<close> that are a digit 0-9 is at least 7 and at most 15; everything else in \<open>p\<close>
  is ignored by the count. \<open>"123456"\<close> fails, \<open>"1234567"\<close> passes, \<open>"+91 98765 43210"\<close>
  passes and \<open>"1234567890123456"\<close> fails.
\<close>

theorem validatePhone_digit_count:
  "(validatePhone p \<longleftrightarrow> 7 \<le> digit_count p \<and> digit_count p \<le> 15) \<and>
   \<not> validatePhone (js ''123456'') \<and> validatePhone (js ''1234567'') \<and>
   validatePhone (js ''+91 98765 43210'') \<and> \<not> validatePhone (js ''1234567890123456'')"
proof -
  have general: "validatePhone q \<longleftrightarrow> 7 \<le> digit_count q \<and> digit_count q \<le> 15" for q
    by (simp add: validatePhone_def Let_def digits_kept digit_count_def)
  have "digit_count (js ''123456'') = 6" "digit_count (js ''1234567'') = 7"
    "digit_count (js ''+91 98765 43210'') = 12" "digit_count (js ''1234567890123456'') = 16"
    by (simp_all add: digit_count_def is_digit_def js_def)
  then show ?thesis by (simp add: general)
qed

section \<open>Email validation\<close>

lemma once_split:
  "anchored_test ((a, Once) # p) s \<longleftrightarrow> (\<exists>c v. s = c # v \<and> atom_matches a c \<and> anchored_test p v)"
  by (cases s) simp_all

lemma many_split:
  "anchored_test ((a, OneOrMore) # p) s \<longleftrightarrow>
     (\<exists>u v. s = u @ v \<and> u \<noteq> [] \<and> list_all (atom_matches a) u \<and> anchored_test p v)"
proof (induction s)
  case Nil
  then show ?case by simp
next
  case (Cons c s)
  show ?case
  proof
    assume "anchored_test ((a, OneOrMore) # p) (c # s)"
    then have c: "atom_matches a c" and
      rest: "anchored_test ((a, OneOrMore) # p) s \<or> anchored_test p s" by simp_all
    from rest show "\<exists>u v. c # s = u @ v \<and> u \<noteq> [] \<and> list_all (atom_matches a) u \<and> anchored_test p v"
    proof
      assume "anchored_test ((a, OneOrMore) # p) s"
      with Cons.IH obtain u v where "s = u @ v" "list_all (atom_matches a) u" "anchored_test p v"
        by blast
      with c have "c # s = (c # u) @ v \<and> c # u \<noteq> [] \<and> list_all (atom_matches a) (c # u) \<and> anchored_test p v"
        by simp
      then show ?thesis by blast
    next
      assume "anchored_test p s"
      with c have "c # s = [c] @ s \<and> [c] \<noteq> [] \<and> list_all (atom_matches a) [c] \<and> anchored_test p s"
        by simp
      then show ?thesis by blast
    qed
  next
    assume "\<exists>u v. c # s = u @ v \<and> u \<noteq> [] \<and> list_all (atom_matches a) u \<and> anchored_test p v"
    then obtain u v where uv: "c # s = u @ v" "u \<noteq> []" "list_all (atom_matches a) u" "anchored_test p v"
      by blast
    then obtain u' where u: "u = c # u'" by (cases u) auto
    with uv have s: "s = u' @ v" and c: "atom_matches a c" and u': "list_all (atom_matches a) u'"
      by simp_all
    show "anchored_test ((a, OneOrMore) # p) (c # s)"
    proof (cases "u' = []")
      case True
      with s uv(4) c show ?thesis by simp
    next
      case False
      with s u' uv(4) Cons.IH have "anchored_test ((a, OneOrMore) # p) s" by blast
      with c show ?thesis by simp
    qed
  qed
qed

lemma many_intro:
  "u \<noteq> [] \<Longrightarrow> list_all (atom_matches a) u \<Longrightarrow> anchored_test p v \<Longrightarrow>
   anchored_test ((a, OneOrMore) # p) (u @ v)"
  using many_split by blast

lemma plain_atom: "atom_matches not_space_at = plain"
  by (rule ext) (simp add: not_space_at_def plain_def)

text \<open>
  C3. For every string \<open>s\<close>, \<open>validateEmail s\<close> holds exactly when \<open>s\<close> has the shape: one or
  more code units that are neither white space nor \<open>@\<close>, then \<open>@\<close>, then one or more such
  code units, then a dot, then one or more such code units.
\<close>

theorem validateEmail_shape: "validateEmail s \<longleftrightarrow> email_shape s"
proof
  assume "validateEmail s"
  then show "email_shape s"
    unfolding validateEmail_def email_pattern_def email_shape_def
    by (auto simp: many_split once_split plain_atom)
next
  assume "email_shape s"
  then obtain a b c where s: "s = a @ [AT] @ b @ [DOT] @ c" and ne: "a \<noteq> []" "b \<noteq> []" "c \<noteq> []"
    and pl: "list_all plain a" "list_all plain b" "list_all plain c"
    unfolding email_shape_def by blast
  have "anchored_test [] []" by simp
  with ne pl have "anchored_test [(not_space_at, OneOrMore)] (c @ [])"
    by (intro many_intro) (simp_all add: plain_atom)
  then have "anchored_test [(Lit DOT, Once), (not_space_at, OneOrMore)] (DOT # c)"
    by simp
  with ne pl have "anchored_test [(not_space_at, OneOrMore), (Lit DOT, Once), (not_space_at, OneOrMore)]
      (b @ DOT # c)"
    by (intro many_intro) (simp_all add: plain_atom)
  then have "anchored_test [(Lit AT, Once), (not_space_at, OneOrMore), (Lit DOT, Once),
      (not_space_at, OneOrMore)] (AT # b @ DOT # c)"
    by simp
  with ne pl have "anchored_test email_pattern (a @ AT # b @ DOT # c)"
    unfolding email_pattern_def by (intro many_intro) (simp_all add: plain_atom)
  then show "validateEmail s" by (simp add: validateEmail_def s)
qed

lemma validateEmail_examples:
  "validateEmail (js ''a@b.com'')" "validateEmail (js ''a@b.c.d'')"
  "\<not> validateEmail (js ''a@b'')" "\<not> validateEmail (js ''a b@c.d'')"
  "\<not> validateEmail (js ''a@@b.c'')" "\<not> validateEmail (js ''@b.c'')"
  by (simp_all add: validateEmail_def email_pattern_def not_space_at_def AT_def DOT_def js_def
      is_space_def)

section \<open>Submitting the form\<close>

lemma sync_name_fails:
  "trim (name s) = [] \<Longrightarrow>
   handleSubmit_sync s = (s\<lparr>error := Some (js ''Please enter your name.'')\<rparr>, None)"
  by (simp add: handleSubmit_sync_def)

lemma sync_email_fails:
  "trim (name s) \<noteq> [] \<Longrightarrow> \<not> validateEmail (email s) \<Longrightarrow>
   handleSubmit_sync s = (s\<lparr>error := Some (js ''Please enter a valid email.'')\<rparr>, None)"
  by (simp add: handleSubmit_sync_def)

lemma sync_phone_fails:
  "trim (name s) \<noteq> [] \<Longrightarrow> validateEmail (email s) \<Longrightarrow> \<not> validatePhone (phone s) \<Longrightarrow>
   handleSubmit_sync s = (s\<lparr>error := Some (js ''Please enter a valid phone number.'')\<rparr>, None)"
  by (simp add: handleSubmit_sync_def)

lemma sync_valid:
  "valid s \<Longrightarrow>
   handleSubmit_sync s =
     (s\<lparr>error := None, status := Sending\<rparr>,
      Some \<lparr>url = js ''/api/subscribe'', http_method = js ''POST'',
            content_type = js ''application/json'',
            body = JObj [(js ''name'', JStr (trim (name s))), (js ''email'', JStr (trim (email s))),
                         (js ''phone'', JStr (trim (phone s)))]\<rparr>)"
  by (simp add: handleSubmit_sync_def valid_def object_def List.map_filter_def)

lemma js_Nil [simp]: "js s = [] \<longleftrightarrow> s = []"
  by (simp add: js_def)

lemma trim_examples: "trim (js ''  '') = []" "trim (js '' Ann '') = js ''Ann''"
  "trim (js ''ann@b.com'') = js ''ann@b.com''" "trim (js ''+91 98765 43210 '') = js ''+91 98765 43210''"
  by (simp_all add: trim_def js_def is_space_def)

lemma validate_examples: "\<not> validateEmail (js ''nobody'')" "validateEmail (js ''ann@b.com'')"
  "\<not> validatePhone (js ''12'')" "validatePhone (js ''+91 98765 43210 '')"
  by (simp_all add: validateEmail_def email_pattern_def not_space_at_def AT_def DOT_def js_def
      is_space_def validatePhone_def replace_all_def)

lemma filled_valid: "valid (filled '' Ann '' ''ann@b.com'' ''+91 98765 43210 '' st)"
  by (simp add: valid_def filled_def trim_examples validate_examples)

text \<open>
  C1. For every form state, \<open>handleSubmit\<close> clears the prior error and checks the name, then
  the email, then the phone. At the first check that fails it stops: the error becomes
  the message of that field, the status and the fields stay as they were, and nothing is
  handed to \<open>fetch\<close>, whatever the network would have answered. When no check fails the
  prior error is gone as well.
\<close>

theorem handleSubmit_validation_order:
  "(trim (name s) = [] \<longrightarrow>
      handleSubmit to_string net s = (s\<lparr>error := Some (js ''Please enter your name.'')\<rparr>, [])) \<and>
   (trim (name s) \<noteq> [] \<and> \<not> validateEmail (email s) \<longrightarrow>
      handleSubmit to_string net s = (s\<lparr>error := Some (js ''Please enter a valid email.'')\<rparr>, [])) \<and>
   (trim (name s) \<noteq> [] \<and> validateEmail (email s) \<and> \<not> validatePhone (phone s) \<longrightarrow>
      handleSubmit to_string net s =
        (s\<lparr>error := Some (js ''Please enter a valid phone number.'')\<rparr>, [])) \<and>
   (valid s \<longrightarrow> error (fst (handleSubmit_sync s)) = None)"
  by (simp add: handleSubmit_def sync_name_fails sync_email_fails sync_phone_fails sync_valid)

theorem handleSubmit_validation_order_witness:
  "handleSubmit (\<lambda>v. []) (\<lambda>req. FetchRejects (Thrown None)) (filled ''  '' ''nobody'' ''12'' Success) =
     (\<lparr>name = js ''  '', email = js ''nobody'', phone = js ''12'', status = Success,
       error = Some (js ''Please enter your name.'')\<rparr>, []) \<and>
   handleSubmit (\<lambda>v. []) (\<lambda>req. FetchRejects (Thrown None)) (filled '' Ann '' ''nobody'' ''12'' Idle) =
     (\<lparr>name = js '' Ann '', email = js ''nobody'', phone = js ''12'', status = Idle,
       error = Some (js ''Please enter a valid email.'')\<rparr>, []) \<and>
   handleSubmit (\<lambda>v. []) (\<lambda>req. FetchRejects (Thrown None)) (filled '' Ann '' ''ann@b.com'' ''12'' Error) =
     (\<lparr>name = js '' Ann '', email = js ''ann@b.com'', phone = js ''12'', status = Error,
       error = Some (js ''Please enter a valid phone number.'')\<rparr>, []) \<and>
   error (fst (handleSubmit_sync (filled '' Ann '' ''ann@b.com'' ''+91 98765 43210 '' Idle))) = None"
  using handleSubmit_validation_order [of "filled ''  '' ''nobody'' ''12'' Success" "\<lambda>v. []"
      "\<lambda>req. FetchRejects (Thrown None)"]
    handleSubmit_validation_order [of "filled '' Ann '' ''nobody'' ''12'' Idle" "\<lambda>v. []"
      "\<lambda>req. FetchRejects (Thrown None)"]
    handleSubmit_validation_order [of "filled '' Ann '' ''ann@b.com'' ''12'' Error" "\<lambda>v. []"
      "\<lambda>req. FetchRejects (Thrown None)"]
    handleSubmit_validation_order [of "filled '' Ann '' ''ann@b.com'' ''+91 98765 43210 '' Idle"]
    filled_valid [of Idle]
  by (simp add: filled_def trim_examples validate_examples)

text \<open>
  C8. For every form state that passes the three validations, \<open>handleSubmit\<close> sets the
  status to \<open>sending\<close> and hands exactly one request to \<open>fetch\<close>: a POST to
  \<open>/api/subscribe\<close> with content type JSON whose body is the object of the trimmed name,
  email and phone.
\<close>

theorem handleSubmit_one_request:
  "valid s \<Longrightarrow>
   handleSubmit_sync s =
     (s\<lparr>error := None, status := Sending\<rparr>,
      Some \<lparr>url = js ''/api/subscribe'', http_method = js ''POST'',
            content_type = js ''application/json'',
            body = JObj [(js ''name'', JStr (trim (name s))), (js ''email'', JStr (trim (email s))),
                         (js ''phone'', JStr (trim (phone s)))]\<rparr>) \<and>
   snd (handleSubmit to_string net s) =
     [\<lparr>url = js ''/api/subscribe'', http_method = js ''POST'',
       content_type = js ''application/json'',
       body = JObj [(js ''name'', JStr (trim (name s))), (js ''email'', JStr (trim (email s))),
                    (js ''phone'', JStr (trim (phone s)))]\<rparr>]"
  by (simp add: handleSubmit_def sync_valid)

theorem handleSubmit_one_request_witness:
  "handleSubmit_sync (filled '' Ann '' ''ann@b.com'' ''+91 98765 43210 '' Idle) =
     (\<lparr>name = js '' Ann '', email = js ''ann@b.com'', phone = js ''+91 98765 43210 '',
       status = Sending, error = None\<rparr>,
      Some \<lparr>url = js ''/api/subscribe'', http_method = js ''POST'',
            content_type = js ''application/json'',
            body = JObj [(js ''name'', JStr (js ''Ann'')), (js ''email'', JStr (js ''ann@b.com'')),
                         (js ''phone'', JStr (js ''+91 98765 43210''))]\<rparr>) \<and>
   length (snd (handleSubmit (\<lambda>v. []) (\<lambda>req. FetchRejects (Thrown None))
     (filled '' Ann '' ''ann@b.com'' ''+91 98765 43210 '' Idle))) = 1"
  using handleSubmit_one_request [OF filled_valid [of Idle], of "\<lambda>v. []" "\<lambda>req. FetchRejects (Thrown None)"]
  by (simp add: filled_def trim_examples)

lemma settle_success:
  "ok res \<Longrightarrow> json_result res = JsonResolves j \<Longrightarrow>
   handleSubmit_settle to_string (FetchResolves res) s =
     s\<lparr>status := Success, name := [], email := [], phone := []\<rparr>"
  by (simp add: handleSubmit_settle_def await_fetch_def)

lemma settle_not_ok:
  "\<not> ok res \<Longrightarrow> json_result res = JsonResolves j \<Longrightarrow>
   handleSubmit_settle to_string (FetchResolves res) s =
     s\<lparr>status := Error,
       error := Some (message_or
         (new_Error to_string (or_else (property j (js ''error'')) (JStr (js ''Server error''))))
         (js ''Something went wrong.''))\<rparr>"
  by (simp add: handleSubmit_settle_def await_fetch_def)

lemma settle_json_rejects:
  "json_result res = JsonRejects err \<Longrightarrow>
   handleSubmit_settle to_string (FetchResolves res) s =
     s\<lparr>status := Error, error := Some (message_or err (js ''Something went wrong.''))\<rparr>"
  by (simp add: handleSubmit_settle_def await_fetch_def)

lemma settle_fetch_rejects:
  "handleSubmit_settle to_string (FetchRejects err) s =
     s\<lparr>status := Error, error := Some (message_or err (js ''Something went wrong.''))\<rparr>"
  by (simp add: handleSubmit_settle_def await_fetch_def)

lemma handleSubmit_valid:
  "valid s \<Longrightarrow>
   fst (handleSubmit to_string (\<lambda>req. outcome) s) =
     handleSubmit_settle to_string outcome (s\<lparr>error := None, status := Sending\<rparr>)"
  by (simp add: handleSubmit_def sync_valid)

lemma or_else_falsy: "\<not> truthy v \<Longrightarrow> or_else v d = d"
  by (cases v) (simp_all add: or_else_def)

lemma or_else_truthy: "truthy (Some x) \<Longrightarrow> or_else (Some x) d = x"
  by (simp add: or_else_def)

lemma message_or_Some: "m \<noteq> [] \<Longrightarrow> message_or (Thrown (Some m)) fallback = m"
  by (simp add: message_or_def)

lemma server_message_string:
  assumes "property j (js ''error'') = Some (JStr m)" and "m \<noteq> []"
  shows "message_or
     (new_Error to_string (or_else (property j (js ''error'')) (JStr (js ''Server error''))))
     (js ''Something went wrong.'') = m"
proof -
  from assms have "or_else (property j (js ''error'')) (JStr (js ''Server error'')) = JStr m"
    by (simp add: or_else_truthy)
  then show ?thesis using assms(2) by (simp add: new_Error_def message_or_Some)
qed

lemma server_message_absent:
  assumes "\<not> truthy (property j (js ''error''))"
  shows "message_or
     (new_Error to_string (or_else (property j (js ''error'')) (JStr (js ''Server error''))))
     (js ''Something went wrong.'') = js ''Server error''"
proof -
  from assms have "or_else (property j (js ''error'')) (JStr (js ''Server error'')) =
      JStr (js ''Server error'')"
    by (rule or_else_falsy)
  then show ?thesis by (simp add: new_Error_def message_or_Some)
qed

text \<open>
  C4. After the request of a valid form has settled: on a response with HTTP status
  200-299 whose body parses as JSON the status is \<open>success\<close> and name, email and phone are
  empty. In every other case the status is \<open>error\<close> and name, email and phone keep their
  values: on a response that is not successful the error is the message the server sent
  (its \<open>error\<close> member, \<open>Server error\<close> when there is none); on a response whose body is not
  JSON, whatever its HTTP status, and on a request that failed, the error is the message
  of the exception, or \<open>Something went wrong.\<close> when it has none.
\<close>

theorem handleSubmit_network_phase:
  "valid s \<Longrightarrow>
   (ok res \<and> json_result res = JsonResolves j \<longrightarrow>
      fst (handleSubmit to_string (\<lambda>req. FetchResolves res) s) =
        s\<lparr>name := [], email := [], phone := [], status := Success, error := None\<rparr>) \<and>
   (\<not> ok res \<and> json_result res = JsonResolves j \<longrightarrow>
      fst (handleSubmit to_string (\<lambda>req. FetchResolves res) s) =
        s\<lparr>status := Error,
          error := Some (message_or
            (new_Error to_string (or_else (property j (js ''error'')) (JStr (js ''Server error''))))
            (js ''Something went wrong.''))\<rparr>) \<and>
   (\<not> ok res \<and> json_result res = JsonResolves j \<and> property j (js ''error'') = Some (JStr m) \<and>
    m \<noteq> [] \<longrightarrow>
      fst (handleSubmit to_string (\<lambda>req. FetchResolves res) s) = s\<lparr>status := Error, error := Some m\<rparr>) \<and>
   (\<not> ok res \<and> json_result res = JsonResolves j \<and> \<not> truthy (property j (js ''error'')) \<longrightarrow>
      fst (handleSubmit to_string (\<lambda>req. FetchResolves res) s) =
        s\<lparr>status := Error, error := Some (js ''Server error'')\<rparr>) \<and>
   (json_result res = JsonRejects err \<longrightarrow>
      fst (handleSubmit to_string (\<lambda>req. FetchResolves res) s) =
        s\<lparr>status := Error, error := Some (message_or err (js ''Something went wrong.''))\<rparr>) \<and>
   fst (handleSubmit to_string (\<lambda>req. FetchRejects err) s) =
     s\<lparr>status := Error, error := Some (message_or err (js ''Something went wrong.''))\<rparr>"
  using server_message_string [of j m to_string] server_message_absent [of j to_string]
  by (simp add: handleSubmit_valid settle_success settle_not_ok settle_json_rejects
      settle_fetch_rejects)


lemma ann_valid: "valid ann"
  by (simp add: ann_def filled_valid)

theorem handleSubmit_network_phase_witness:
  "fst (handleSubmit (\<lambda>v. []) (\<lambda>req. FetchResolves (answer 200
      (JsonResolves (JObj [(js ''ok'', JBool True), (js ''data'', JNull)])))) ann) =
     \<lparr>name = [], email = [], phone = [], status = Success, error = None\<rparr> \<and>
   fst (handleSubmit (\<lambda>v. []) (\<lambda>req. FetchResolves (answer 500
      (JsonResolves (JObj [(js ''error'', JStr (js ''duplicate key''))])))) ann) =
     \<lparr>name = js '' Ann '', email = js ''ann@b.com'', phone = js ''+91 98765 43210 '',
       status = Error, error = Some (js ''duplicate key'')\<rparr> \<and>
   fst (handleSubmit (\<lambda>v. []) (\<lambda>req. FetchResolves (answer 404 (JsonResolves (JObj [])))) ann) =
     \<lparr>name = js '' Ann '', email = js ''ann@b.com'', phone = js ''+91 98765 43210 '',
       status = Error, error = Some (js ''Server error'')\<rparr> \<and>
   fst (handleSubmit (\<lambda>v. []) (\<lambda>req. FetchResolves (answer 502
      (JsonRejects (Thrown (Some (js ''Unexpected end of JSON input''))))) ) ann) =
     \<lparr>name = js '' Ann '', email = js ''ann@b.com'', phone = js ''+91 98765 43210 '',
       status = Error, error = Some (js ''Unexpected end of JSON input'')\<rparr> \<and>
   fst (handleSubmit (\<lambda>v. []) (\<lambda>req. FetchRejects (Thrown None)) ann) =
     \<lparr>name = js '' Ann '', email = js ''ann@b.com'', phone = js ''+91 98765 43210 '',
       status = Error, error = Some (js ''Something went wrong.'')\<rparr>"
  using
    handleSubmit_network_phase [OF ann_valid, of
      "answer 200 (JsonResolves (JObj [(js ''ok'', JBool True), (js ''data'', JNull)]))"
      "JObj [(js ''ok'', JBool True), (js ''data'', JNull)]" "\<lambda>v. []"]
    handleSubmit_network_phase [OF ann_valid, of
      "answer 500 (JsonResolves (JObj [(js ''error'', JStr (js ''duplicate key''))]))"
      "JObj [(js ''error'', JStr (js ''duplicate key''))]" "\<lambda>v. []" "js ''duplicate key''"]
    handleSubmit_network_phase [OF ann_valid, of
      "answer 404 (JsonResolves (JObj []))" "JObj []" "\<lambda>v. []"]
    handleSubmit_network_phase [OF ann_valid, of
      "answer 502 (JsonRejects (Thrown (Some (js ''Unexpected end of JSON input''))))" _ "\<lambda>v. []" _
      "Thrown (Some (js ''Unexpected end of JSON input''))"]
    handleSubmit_network_phase [OF ann_valid, of _ _ "\<lambda>v. []" _ "Thrown None"]
  by (simp add: ann_def filled_def answer_def ok_def message_or_def)

text \<open>
  A response with HTTP status 200 is not enough for \<open>success\<close>: when its body is not JSON
  the run ends with status \<open>error\<close> and the fields as they were.
\<close>

theorem handleSubmit_success_response_counterexample:
  "ok (answer 200 (JsonRejects (Thrown (Some (js ''Unexpected end of JSON input''))))) \<and>
   fst (handleSubmit (\<lambda>v. []) (\<lambda>req. FetchResolves (answer 200
      (JsonRejects (Thrown (Some (js ''Unexpected end of JSON input''))))) ) ann) =
     \<lparr>name = js '' Ann '', email = js ''ann@b.com'', phone = js ''+91 98765 43210 '',
       status = Error, error = Some (js ''Unexpected end of JSON input'')\<rparr>"
proof -
  have "fst (handleSubmit (\<lambda>v. []) (\<lambda>req. FetchResolves (answer 200
      (JsonRejects (Thrown (Some (js ''Unexpected end of JSON input''))))) ) ann) =
    handleSubmit_settle (\<lambda>v. []) (FetchResolves (answer 200
      (JsonRejects (Thrown (Some (js ''Unexpected end of JSON input''))))))
      (ann\<lparr>error := None, status := Sending\<rparr>)"
    using ann_valid by (rule handleSubmit_valid)
  then show ?thesis
    by (simp add: settle_json_rejects answer_def ok_def ann_def filled_def message_or_def)
qed

section \<open>The response body is parsed before the status is looked at\<close>

text \<open>
  C10. \<open>handleSubmit\<close> awaits \<open>res.json()\<close> before it tests \<open>res.ok\<close>. So for a valid form and
  every response whose body is not JSON, whatever its HTTP status (200 included), the run
  ends with status \<open>error\<close> and the message of the parse exception (the generic message
  when it has none); and the status \<open>success\<close> is reached exactly when the response has a
  status in 200-299 and a body that parses.
\<close>

theorem handleSubmit_unparseable_body:
  "valid s \<Longrightarrow>
   (json_result res = JsonRejects err \<longrightarrow>
      fst (handleSubmit to_string (\<lambda>req. FetchResolves res) s) =
        s\<lparr>status := Error, error := Some (message_or err (js ''Something went wrong.''))\<rparr>) \<and>
   (json_result res = JsonRejects (Thrown (Some m)) \<and> m \<noteq> [] \<longrightarrow>
      fst (handleSubmit to_string (\<lambda>req. FetchResolves res) s) = s\<lparr>status := Error, error := Some m\<rparr>) \<and>
   (status (fst (handleSubmit to_string (\<lambda>req. outcome) s)) = Success \<longleftrightarrow>
      (\<exists>r j. outcome = FetchResolves r \<and> ok r \<and> json_result r = JsonResolves j))"
proof (intro conjI impI)
  assume v: "valid s"
  show "fst (handleSubmit to_string (\<lambda>req. FetchResolves res) s) =
        s\<lparr>status := Error, error := Some (message_or err (js ''Something went wrong.''))\<rparr>"
    if "json_result res = JsonRejects err"
    using v that by (simp add: handleSubmit_valid settle_json_rejects)
  show "fst (handleSubmit to_string (\<lambda>req. FetchResolves res) s) = s\<lparr>status := Error, error := Some m\<rparr>"
    if "json_result res = JsonRejects (Thrown (Some m)) \<and> m \<noteq> []"
    using v that by (simp add: handleSubmit_valid settle_json_rejects message_or_Some)
  show "status (fst (handleSubmit to_string (\<lambda>req. outcome) s)) = Success \<longleftrightarrow>
      (\<exists>r j. outcome = FetchResolves r \<and> ok r \<and> json_result r = JsonResolves j)"
  proof (cases outcome)
    case (FetchRejects e)
    with v show ?thesis by (simp add: handleSubmit_valid settle_fetch_rejects)
  next
    case (FetchResolves r)
    show ?thesis
    proof (cases "json_result r")
      case (JsonRejects e)
      with v FetchResolves show ?thesis by (simp add: handleSubmit_valid settle_json_rejects)
    next
      case (JsonResolves j)
      with v FetchResolves show ?thesis
        by (cases "ok r") (simp_all add: handleSubmit_valid settle_success settle_not_ok)
    qed
  qed
qed

theorem handleSubmit_unparseable_body_witness:
  "fst (handleSubmit (\<lambda>v. []) (\<lambda>req. FetchResolves (answer 200
      (JsonRejects (Thrown (Some (js ''Unexpected token''))))) ) ann) =
     \<lparr>name = js '' Ann '', email = js ''ann@b.com'', phone = js ''+91 98765 43210 '',
       status = Error, error = Some (js ''Unexpected token'')\<rparr> \<and>
   status (fst (handleSubmit (\<lambda>v. []) (\<lambda>req. FetchResolves (answer 200 (JsonResolves JNull))) ann)) =
     Success"
  using
    handleSubmit_unparseable_body [OF ann_valid, of
      "answer 200 (JsonRejects (Thrown (Some (js ''Unexpected token''))))"
      "Thrown (Some (js ''Unexpected token''))" "\<lambda>v. []" "js ''Unexpected token''"
      "FetchResolves (answer 200 (JsonResolves JNull))"]
  by (simp add: ann_def filled_def answer_def ok_def message_or_def)

section \<open>Submitting while a request is under way\<close>

lemma sync_request_sending:
  "handleSubmit_sync s = (s', Some req) \<Longrightarrow> status s' = Sending"
  by (auto simp: handleSubmit_sync_def Let_def split: if_splits)

lemma sync_ignores_status:
  "snd (handleSubmit_sync (s\<lparr>status := st\<rparr>)) = snd (handleSubmit_sync s)"
  by (simp add: handleSubmit_sync_def Let_def)

lemma settle_status: "status (handleSubmit_settle to_string outcome s) \<in> {Success, Error}"
  by (simp add: handleSubmit_settle_def split: sum.splits)

text \<open>
  C9. \<open>handleSubmit\<close> has no guard of its own against a second run: the request it issues
  does not depend on the status, so run on a valid form while the status is \<open>sending\<close> it
  hands another request to \<open>fetch\<close>. What stands against a second submission is the submit
  control alone: every run that issues a request leaves the status \<open>sending\<close>, with which
  the control is rendered disabled, and when the request has settled the control is
  enabled again.
\<close>

theorem submit_guard_is_the_control:
  "(handleSubmit_sync s = (s', Some req) \<longrightarrow> submit_disabled s') \<and>
   \<not> submit_disabled (handleSubmit_settle to_string outcome s) \<and>
   snd (handleSubmit_sync (s\<lparr>status := st\<rparr>)) = snd (handleSubmit_sync s) \<and>
   (valid s \<longrightarrow>
      handleSubmit_sync (s\<lparr>status := Sending\<rparr>) =
        (s\<lparr>error := None, status := Sending\<rparr>, snd (handleSubmit_sync s)) \<and>
      snd (handleSubmit_sync s) \<noteq> None)"
proof (intro conjI impI)
  assume "handleSubmit_sync s = (s', Some req)"
  then have "status s' = Sending" by (rule sync_request_sending)
  then show "submit_disabled s'" by (simp add: submit_disabled_def)
next
  have "status (handleSubmit_settle to_string outcome s) \<in> {Success, Error}"
    by (rule settle_status)
  then show "\<not> submit_disabled (handleSubmit_settle to_string outcome s)"
    by (auto simp: submit_disabled_def)
next
  show "snd (handleSubmit_sync (s\<lparr>status := st\<rparr>)) = snd (handleSubmit_sync s)"
    by (rule sync_ignores_status)
next
  assume v: "valid s"
  then have again: "valid (s\<lparr>status := Sending\<rparr>)" by (simp add: valid_def)
  show "handleSubmit_sync (s\<lparr>status := Sending\<rparr>) =
        (s\<lparr>error := None, status := Sending\<rparr>, snd (handleSubmit_sync s))"
    using sync_valid [OF again] sync_valid [OF v] by simp
  show "snd (handleSubmit_sync s) \<noteq> None"
    using sync_valid [OF v] by simp
qed

theorem submit_guard_is_the_control_witness:
  "submit_disabled \<lparr>name = js '' Ann '', email = js ''ann@b.com'', phone = js ''+91 98765 43210 '',
       status = Sending, error = None\<rparr> \<and>
   \<not> submit_disabled (handleSubmit_settle (\<lambda>v. []) (FetchRejects (Thrown None)) ann) \<and>
   snd (handleSubmit_sync (ann\<lparr>status := Sending\<rparr>)) = snd (handleSubmit_sync ann) \<and>
   snd (handleSubmit_sync ann) \<noteq> None"
proof -
  have first: "handleSubmit_sync ann =
     (\<lparr>name = js '' Ann '', email = js ''ann@b.com'', phone = js ''+91 98765 43210 '',
       status = Sending, error = None\<rparr>,
      Some \<lparr>url = js ''/api/subscribe'', http_method = js ''POST'',
            content_type = js ''application/json'',
            body = JObj [(js ''name'', JStr (js ''Ann'')), (js ''email'', JStr (js ''ann@b.com'')),
                         (js ''phone'', JStr (js ''+91 98765 43210''))]\<rparr>)"
    using sync_valid [OF ann_valid] by (simp add: ann_def filled_def trim_examples)
  show ?thesis
    using submit_guard_is_the_control [of ann _ _ "\<lambda>v. []" "FetchRejects (Thrown None)" Sending]
      first ann_valid
    by simp
qed

text \<open>
  Two runs of \<open>handleSubmit\<close> in immediate succession, the second on the state the first has
  left, with status \<open>sending\<close>: each hands a request to \<open>fetch\<close>.
\<close>

theorem handleSubmit_twice_counterexample:
  "handleSubmit_sync ann =
     (\<lparr>name = js '' Ann '', email = js ''ann@b.com'', phone = js ''+91 98765 43210 '',
       status = Sending, error = None\<rparr>,
      Some \<lparr>url = js ''/api/subscribe'', http_method = js ''POST'',
            content_type = js ''application/json'',
            body = JObj [(js ''name'', JStr (js ''Ann'')), (js ''email'', JStr (js ''ann@b.com'')),
                         (js ''phone'', JStr (js ''+91 98765 43210''))]\<rparr>) \<and>
   handleSubmit_sync
     \<lparr>name = js '' Ann '', email = js ''ann@b.com'', phone = js ''+91 98765 43210 '',
       status = Sending, error = None\<rparr> =
     (\<lparr>name = js '' Ann '', email = js ''ann@b.com'', phone = js ''+91 98765 43210 '',
       status = Sending, error = None\<rparr>,
      Some \<lparr>url = js ''/api/subscribe'', http_method = js ''POST'',
            content_type = js ''application/json'',
            body = JObj [(js ''name'', JStr (js ''Ann'')), (js ''email'', JStr (js ''ann@b.com'')),
                         (js ''phone'', JStr (js ''+91 98765 43210''))]\<rparr>)"
proof -
  have "valid (ann\<lparr>error := None, status := Sending\<rparr>)"
    using ann_valid by (simp add: valid_def)
  from sync_valid [OF ann_valid] sync_valid [OF this] show ?thesis
    by (simp add: ann_def filled_def trim_examples)
qed

section \<open>The answers of the endpoint\<close>

lemma POST_try_missing:
  "\<not> truthy (property b (js ''name'')) \<or> \<not> truthy (property b (js ''email'')) \<Longrightarrow>
   POST_try db_insert (JsonResolves b) =
     ([], [], Inr \<lparr>status_code = 400, content = JObj [(js ''error'', JStr (js ''Missing name or email''))]\<rparr>)"
  by (auto simp: POST_try_def Let_def NextResponse_json_def object_def List.map_filter_def)

lemma POST_try_insert:
  "truthy (property b (js ''name'')) \<Longrightarrow> truthy (property b (js ''email'')) \<Longrightarrow>
   POST_try db_insert (JsonResolves b) =
     (case db_insert [row_of b] of
        InsertThrows err \<Rightarrow> ([[row_of b]], [], Inl err)
      | InsertReturns d (Some err) \<Rightarrow>
          ([[row_of b]], [(js ''Supabase insert error:'', LoggedError err)],
           Inr \<lparr>status_code = 500, content = JObj [(js ''error'', JStr (pg_message err))]\<rparr>)
      | InsertReturns d None \<Rightarrow>
          ([[row_of b]], [],
           Inr \<lparr>status_code = 200, content = object [(js ''ok'', Some (JBool True)), (js ''data'', d)]\<rparr>))"
  by (simp add: POST_try_def Let_def NextResponse_json_def object_def List.map_filter_def row_of_def
      split: insert_outcome.splits option.splits)

lemma example_body_members:
  "property example_body (js ''name'') = Some (JStr (js ''A''))"
  "property example_body (js ''email'') = Some (JStr (js ''a@b.com''))"
  "property example_body (js ''phone'') = Some (JStr (js ''123''))"
  by (simp_all add: example_body_def js_def)


lemma example_truthy:
  "truthy (property example_body (js ''name''))" "truthy (property example_body (js ''email''))"
  by (simp_all add: example_body_members)

text \<open>
  C5. For every request body whose \<open>name\<close> or \<open>email\<close> is falsy (the empty string, \<open>null\<close>,
  \<open>undefined\<close> and every other falsy value), \<open>POST\<close> answers 400 with
  \<open>{error: "Missing name or email"}\<close>, calls no insert and logs nothing. The phone is not
  looked at: when name and email are truthy the row goes to insert with whatever the phone
  is, \<open>undefined\<close> included, and the answer is not 400.
\<close>

theorem POST_missing_name_or_email:
  "(\<not> truthy (property b (js ''name'')) \<or> \<not> truthy (property b (js ''email'')) \<longrightarrow>
      POST db_insert (JsonResolves b) =
        \<lparr>response = \<lparr>status_code = 400,
                      content = JObj [(js ''error'', JStr (js ''Missing name or email''))]\<rparr>,
         inserts = [], console = []\<rparr>) \<and>
   (truthy (property b (js ''name'')) \<and> truthy (property b (js ''email'')) \<longrightarrow>
      inserts (POST db_insert (JsonResolves b)) =
        [[\<lparr>row_name = property b (js ''name''), row_email = property b (js ''email''),
           row_phone = property b (js ''phone'')\<rparr>]] \<and>
      status_code (response (POST db_insert (JsonResolves b))) \<noteq> 400)"
proof (intro conjI impI)
  assume "\<not> truthy (property b (js ''name'')) \<or> \<not> truthy (property b (js ''email''))"
  then show "POST db_insert (JsonResolves b) =
        \<lparr>response = \<lparr>status_code = 400,
                      content = JObj [(js ''error'', JStr (js ''Missing name or email''))]\<rparr>,
         inserts = [], console = []\<rparr>"
    by (simp add: POST_def POST_try_missing)
next
  assume t: "truthy (property b (js ''name'')) \<and> truthy (property b (js ''email''))"
  then show "inserts (POST db_insert (JsonResolves b)) =
        [[\<lparr>row_name = property b (js ''name''), row_email = property b (js ''email''),
           row_phone = property b (js ''phone'')\<rparr>]]"
    by (simp add: POST_def POST_try_insert row_of_def NextResponse_json_def
        split: insert_outcome.splits option.splits)
  from t show "status_code (response (POST db_insert (JsonResolves b))) \<noteq> 400"
    by (simp add: POST_def POST_try_insert NextResponse_json_def
        split: insert_outcome.splits option.splits)
qed

theorem POST_missing_name_or_email_witness:
  "POST echo_insert (JsonResolves (JObj [(js ''name'', JStr (js ''A''))])) =
     \<lparr>response = \<lparr>status_code = 400,
                   content = JObj [(js ''error'', JStr (js ''Missing name or email''))]\<rparr>,
      inserts = [], console = []\<rparr> \<and>
   POST echo_insert (JsonResolves (JObj [(js ''name'', JStr []), (js ''email'', JStr (js ''a@b.com''))])) =
     \<lparr>response = \<lparr>status_code = 400,
                   content = JObj [(js ''error'', JStr (js ''Missing name or email''))]\<rparr>,
      inserts = [], console = []\<rparr> \<and>
   POST echo_insert (JsonResolves (JObj [(js ''name'', JStr (js ''A'')), (js ''email'', JNull)])) =
     \<lparr>response = \<lparr>status_code = 400,
                   content = JObj [(js ''error'', JStr (js ''Missing name or email''))]\<rparr>,
      inserts = [], console = []\<rparr> \<and>
   inserts (POST echo_insert
      (JsonResolves (JObj [(js ''name'', JStr (js ''A'')), (js ''email'', JStr (js ''a@b.com''))]))) =
     [[\<lparr>row_name = Some (JStr (js ''A'')), row_email = Some (JStr (js ''a@b.com'')), row_phone = None\<rparr>]] \<and>
   status_code (response (POST echo_insert
      (JsonResolves (JObj [(js ''name'', JStr (js ''A'')), (js ''email'', JStr (js ''a@b.com''))])))) \<noteq> 400"
  using
    POST_missing_name_or_email [of "JObj [(js ''name'', JStr (js ''A''))]" echo_insert]
    POST_missing_name_or_email [of "JObj [(js ''name'', JStr []), (js ''email'', JStr (js ''a@b.com''))]"
      echo_insert]
    POST_missing_name_or_email [of "JObj [(js ''name'', JStr (js ''A'')), (js ''email'', JNull)]"
      echo_insert]
    POST_missing_name_or_email [of
      "JObj [(js ''name'', JStr (js ''A'')), (js ''email'', JStr (js ''a@b.com''))]" echo_insert]
  by (simp add: js_def)




text \<open>
  C7. Every failure inside \<open>POST\<close> ends in a 500 response. When the body does not parse or
  the insert throws, the exception is caught and logged and the response is 500 with its
  message, or \<open>Unknown error\<close> when it has none; when the insert reports an error, the error
  is logged and the response is 500 with the collaborator's message. Whatever the \<open>try\<close>
  block throws becomes such a response, and every run of \<open>POST\<close> returns a response, with
  status 200, 400 or 500.
\<close>

theorem POST_failures:
  "(POST db_insert (JsonRejects err) =
      \<lparr>response = \<lparr>status_code = 500,
                    content = JObj [(js ''error'', JStr (message_or err (js ''Unknown error'')))]\<rparr>,
       inserts = [], console = [(js ''Subscribe route error:'', LoggedThrown err)]\<rparr>) \<and>
   (truthy (property b (js ''name'')) \<and> truthy (property b (js ''email'')) \<and>
    db_insert [row_of b] = InsertThrows err \<longrightarrow>
      POST db_insert (JsonResolves b) =
        \<lparr>response = \<lparr>status_code = 500,
                      content = JObj [(js ''error'', JStr (message_or err (js ''Unknown error'')))]\<rparr>,
         inserts = [[row_of b]], console = [(js ''Subscribe route error:'', LoggedThrown err)]\<rparr>) \<and>
   (truthy (property b (js ''name'')) \<and> truthy (property b (js ''email'')) \<and>
    db_insert [row_of b] = InsertReturns d (Some pe) \<longrightarrow>
      POST db_insert (JsonResolves b) =
        \<lparr>response = \<lparr>status_code = 500, content = JObj [(js ''error'', JStr (pg_message pe))]\<rparr>,
         inserts = [[row_of b]], console = [(js ''Supabase insert error:'', LoggedError pe)]\<rparr>) \<and>
   (snd (snd (POST_try db_insert request_json)) = Inl err \<longrightarrow>
      response (POST db_insert request_json) =
        \<lparr>status_code = 500,
         content = JObj [(js ''error'', JStr (message_or err (js ''Unknown error'')))]\<rparr> \<and>
      (js ''Subscribe route error:'', LoggedThrown err) \<in> set (console (POST db_insert request_json))) \<and>
   status_code (response (POST db_insert request_json)) \<in> {200, 400, 500}"
proof (intro conjI impI)
  show "POST db_insert (JsonRejects err) =
      \<lparr>response = \<lparr>status_code = 500,
                    content = JObj [(js ''error'', JStr (message_or err (js ''Unknown error'')))]\<rparr>,
       inserts = [], console = [(js ''Subscribe route error:'', LoggedThrown err)]\<rparr>"
    by (simp add: POST_def POST_try_def NextResponse_json_def object_def List.map_filter_def)
next
  assume "truthy (property b (js ''name'')) \<and> truthy (property b (js ''email'')) \<and>
    db_insert [row_of b] = InsertThrows err"
  then show "POST db_insert (JsonResolves b) =
        \<lparr>response = \<lparr>status_code = 500,
                      content = JObj [(js ''error'', JStr (message_or err (js ''Unknown error'')))]\<rparr>,
         inserts = [[row_of b]], console = [(js ''Subscribe route error:'', LoggedThrown err)]\<rparr>"
    by (simp add: POST_def POST_try_insert NextResponse_json_def object_def List.map_filter_def)
next
  assume "truthy (property b (js ''name'')) \<and> truthy (property b (js ''email'')) \<and>
    db_insert [row_of b] = InsertReturns d (Some pe)"
  then show "POST db_insert (JsonResolves b) =
        \<lparr>response = \<lparr>status_code = 500, content = JObj [(js ''error'', JStr (pg_message pe))]\<rparr>,
         inserts = [[row_of b]], console = [(js ''Supabase insert error:'', LoggedError pe)]\<rparr>"
    by (simp add: POST_def POST_try_insert)
next
  assume thrown: "snd (snd (POST_try db_insert request_json)) = Inl err"
  obtain calls logs where "POST_try db_insert request_json = (calls, logs, Inl err)"
    using thrown by (cases "POST_try db_insert request_json") auto
  then have post: "POST db_insert request_json =
      \<lparr>response = NextResponse_json
         (object [(js ''error'', Some (JStr (message_or err (js ''Unknown error''))))]) 500,
       inserts = calls, console = logs @ [(js ''Subscribe route error:'', LoggedThrown err)]\<rparr>"
    by (simp add: POST_def)
  show "response (POST db_insert request_json) =
        \<lparr>status_code = 500,
         content = JObj [(js ''error'', JStr (message_or err (js ''Unknown error'')))]\<rparr>"
    by (simp add: post NextResponse_json_def object_def List.map_filter_def)
  show "(js ''Subscribe route error:'', LoggedThrown err) \<in> set (console (POST db_insert request_json))"
    by (simp add: post)
next
  show "status_code (response (POST db_insert request_json)) \<in> {200, 400, 500}"
  proof (cases request_json)
    case (JsonRejects e)
    then show ?thesis by (simp add: POST_def POST_try_def NextResponse_json_def)
  next
    case (JsonResolves body)
    show ?thesis
    proof (cases "truthy (property body (js ''name'')) \<and> truthy (property body (js ''email''))")
      case True
      with JsonResolves show ?thesis
        by (simp add: POST_def POST_try_insert NextResponse_json_def
            split: insert_outcome.splits option.splits)
    next
      case False
      with JsonResolves show ?thesis by (auto simp: POST_def POST_try_missing)
    qed
  qed
qed

theorem POST_failures_witness:
  "POST failing_insert (JsonResolves example_body) =
     \<lparr>response = \<lparr>status_code = 500, content = JObj [(js ''error'', JStr (js ''duplicate key''))]\<rparr>,
      inserts = [[row_of example_body]],
      console = [(js ''Supabase insert error:'', LoggedError (PgError (js ''duplicate key'')))]\<rparr> \<and>
   POST broken_insert (JsonResolves example_body) =
     \<lparr>response = \<lparr>status_code = 500, content = JObj [(js ''error'', JStr (js ''fetch failed''))]\<rparr>,
      inserts = [[row_of example_body]],
      console = [(js ''Subscribe route error:'', LoggedThrown (Thrown (Some (js ''fetch failed''))))]\<rparr> \<and>
   response (POST echo_insert (JsonRejects (Thrown None))) =
     \<lparr>status_code = 500, content = JObj [(js ''error'', JStr (js ''Unknown error''))]\<rparr>"
  using
    POST_failures [of failing_insert _ example_body "Some JNull" "PgError (js ''duplicate key'')"]
    POST_failures [of broken_insert "Thrown (Some (js ''fetch failed''))" example_body]
    POST_failures [of echo_insert "Thrown None" _ _ _ "JsonRejects (Thrown None)"]
  by (simp add: example_truthy failing_insert_def broken_insert_def message_or_def POST_try_def)


end
